theory Spec2Isabelle
  imports Complex_Main "HOL-Library.Word"
begin

section \<open>Python values and errors\<close>

text \<open>
  Exceptions of the Python code are values: every \<^verbatim>\<open>raise\<close> of the source is an
  \<open>Inl\<close> branch of the model. \<open>UnboundLocalError\<close> is what Python raises when a
  local variable is read before any assignment reached it.
\<close>

datatype error =
    ValueError string
  | NotImplementedError string
  | KeyError string
  | ZeroDivisionError
  | UnboundLocalError string
  | TypeError string
  | AttributeError string
  | MemoryError

text \<open>
  A floating-point number is modelled by the real number it stands for. The scalar
  arithmetic of the time axis, whose results feed truncations, comparisons and sample
  counts, is modelled operation by operation: every operation yields the exact result
  rounded to a floating-point number, and the rounding function \<open>r\<close> is a parameter.
  The built-ins used by the code: \<^verbatim>\<open>round(x, ndigits)\<close> (the decimal rounding of
  the exact value, ties to the even neighbour as in Python 3, then rounded to a
  floating-point number), \<^verbatim>\<open>int(x)\<close> (truncation towards zero, exact),
  \<^verbatim>\<open>x % y\<close> (the exact C \<^verbatim>\<open>fmod\<close>, to which the divisor is added when the signs
  differ) and \<^verbatim>\<open>x / y\<close>; the last two raise on a zero divisor.
\<close>

definition decimal_round :: "real \<Rightarrow> nat \<Rightarrow> real" where
  "decimal_round x ndigits =
     (let s = x * 10 ^ ndigits; f = \<lfloor>s\<rfloor>; d = s - of_int f
      in of_int (if d < 1 / 2 then f else if 1 / 2 < d then f + 1
                 else if even f then f else f + 1) / 10 ^ ndigits)"

definition py_round :: "(real \<Rightarrow> real) \<Rightarrow> real \<Rightarrow> nat \<Rightarrow> real" where
  "py_round r x ndigits = r (decimal_round x ndigits)"

definition py_int :: "real \<Rightarrow> int" where
  "py_int x = (if 0 \<le> x then \<lfloor>x\<rfloor> else \<lceil>x\<rceil>)"

definition c_fmod :: "real \<Rightarrow> real \<Rightarrow> real" where
  "c_fmod x y = x - of_int (py_int (x / y)) * y"

definition float_mod :: "(real \<Rightarrow> real) \<Rightarrow> real \<Rightarrow> real \<Rightarrow> real" where
  "float_mod r x y =
     (let m = c_fmod x y in if m \<noteq> 0 \<and> ((y < 0) \<noteq> (m < 0)) then r (m + y) else m)"

definition py_mod :: "(real \<Rightarrow> real) \<Rightarrow> real \<Rightarrow> real \<Rightarrow> error + real" where
  "py_mod r x y = (if y = 0 then Inl ZeroDivisionError else Inr (float_mod r x y))"

definition py_div :: "(real \<Rightarrow> real) \<Rightarrow> real \<Rightarrow> real \<Rightarrow> error + real" where
  "py_div r x y = (if y = 0 then Inl ZeroDivisionError else Inr (r (x / y)))"

definition py_sub :: "(real \<Rightarrow> real) \<Rightarrow> real \<Rightarrow> real \<Rightarrow> real" where
  "py_sub r x y = r (x - y)"

definition py_mul :: "(real \<Rightarrow> real) \<Rightarrow> real \<Rightarrow> real \<Rightarrow> real" where
  "py_mul r x y = r (x * y)"

text \<open>\<^verbatim>\<open>xs[k:]\<close>: a negative \<open>k\<close> counts from the end of the sequence.\<close>

definition py_slice_from :: "int \<Rightarrow> 'a list \<Rightarrow> 'a list" where
  "py_slice_from k xs =
     (if 0 \<le> k then drop (nat k) xs else drop (length xs - nat (- k)) xs)"

text \<open>
  NumPy arithmetic on one-dimensional arrays of samples, over the reals: nothing discrete
  is computed from the amplitudes. A tuple operand is converted to an array and
  broadcast: shapes \<open>(n)\<close> and \<open>(1)\<close> combine to \<open>(n)\<close>. The in-place form
  \<^verbatim>\<open>a += b\<close> keeps the shape of \<open>a\<close>.
\<close>

datatype factor = Scalar real | Tuple "real list"

definition broadcast2 ::
  "(real \<Rightarrow> real \<Rightarrow> real) \<Rightarrow> real list \<Rightarrow> real list \<Rightarrow> error + real list" where
  "broadcast2 f xs ys =
     (if length xs = length ys then Inr (map2 f xs ys)
      else if length ys = 1 then Inr (map (\<lambda>x. f x (hd ys)) xs)
      else if length xs = 1 then Inr (map (\<lambda>y. f (hd xs) y) ys)
      else Inl (ValueError ''operands could not be broadcast together''))"

definition ndarray_mul :: "real list \<Rightarrow> factor \<Rightarrow> error + real list" where
  "ndarray_mul xs fac =
     (case fac of Scalar c \<Rightarrow> Inr (map (\<lambda>x. x * c) xs)
      | Tuple ys \<Rightarrow> broadcast2 (\<lambda>x y. x * y) xs ys)"

definition ndarray_iadd :: "real list \<Rightarrow> real list \<Rightarrow> error + real list" where
  "ndarray_iadd xs ys =
     (if length xs = length ys then Inr (map2 (\<lambda>x y. x + y) xs ys)
      else if length ys = 1 then Inr (map (\<lambda>x. x + hd ys) xs)
      else Inl (ValueError ''operands could not be broadcast together''))"

text \<open>\<^verbatim>\<open>ctypes.c_int(n)\<close> keeps the low 32 bits of \<open>n\<close>, read as a signed number.\<close>

definition c_int :: "int \<Rightarrow> int" where
  "c_int n = sint (word_of_int n :: 32 word)"


section \<open>Spectral basis wrappers (axisem\_db/spectral\_basis.py)\<close>

text \<open>
  The compiled routines are reached through \<^verbatim>\<open>lib = load_lib()\<close> and are not part of
  the Python sources: they are parameters of the model. A routine receives the order and
  pointers to the buffers allocated by the wrapper and overwrites the buffers;
  \<open>routine n bufs i\<close> is the content of the \<open>i\<close>-th buffer after the call. Matrices are
  flat buffers in column-major order.

  \<^verbatim>\<open>numpy.zeros\<close> fails for a shape that the platform cannot allocate (a dimension
  beyond the index type, a size beyond the address space or the free memory):
  \<open>zeros_error shape\<close> is the exception raised then, \<open>None\<close> when the platform can
  allocate the shape. A negative dimension within the index type raises
  \<^verbatim>\<open>ValueError\<close>.
\<close>

type_synonym foreign = "int \<Rightarrow> real list list \<Rightarrow> nat \<Rightarrow> real list"

record spectral_lib =
  lib_zelegl :: foreign
  lib_zemngl2 :: foreign
  lib_def_lagrange_derivs_gll :: foreign
  zeros_error :: "int list \<Rightarrow> error option"

definition np_zeros :: "spectral_lib \<Rightarrow> int list \<Rightarrow> error + real list" where
  "np_zeros lib shape =
     (case zeros_error lib shape of Some e \<Rightarrow> Inl e
      | None \<Rightarrow>
          if list_ex (\<lambda>d. d < 0) shape
          then Inl (ValueError ''negative dimensions are not allowed'')
          else Inr (replicate (prod_list (map nat shape)) 0))"

definition zelegl :: "spectral_lib \<Rightarrow> int \<Rightarrow> error + real list" where
  "zelegl lib n =
     (case np_zeros lib [n + 1] of Inl e \<Rightarrow> Inl e
      | Inr data \<Rightarrow> Inr (lib_zelegl lib (c_int n) [data] 0))"

definition zemngl2 :: "spectral_lib \<Rightarrow> int \<Rightarrow> error + real list" where
  "zemngl2 lib n =
     (case np_zeros lib [n + 1] of Inl e \<Rightarrow> Inl e
      | Inr data \<Rightarrow> Inr (lib_zemngl2 lib (c_int n) [data] 0))"

definition def_lagrange_derivs_gll :: "spectral_lib \<Rightarrow> int \<Rightarrow> error + real list" where
  "def_lagrange_derivs_gll lib npol =
     (case np_zeros lib [npol + 1, npol + 1] of Inl e \<Rightarrow> Inl e
      | Inr G \<Rightarrow> Inr (lib_def_lagrange_derivs_gll lib (c_int npol) [G] 0))"

text \<open>The GLJ wrapper calls the GLL routine of the library, with \<open>G1\<close> and \<open>G0\<close>.\<close>

definition def_lagrange_derivs_glj ::
  "spectral_lib \<Rightarrow> int \<Rightarrow> error + (real list \<times> real list)" where
  "def_lagrange_derivs_glj lib npol =
     (case np_zeros lib [npol + 1] of Inl e \<Rightarrow> Inl e
      | Inr G0 \<Rightarrow>
     (case np_zeros lib [npol + 1, npol + 1] of Inl e \<Rightarrow> Inl e
      | Inr G1 \<Rightarrow>
          Inr (lib_def_lagrange_derivs_gll lib (c_int npol) [G1, G0] 1,
               lib_def_lagrange_derivs_gll lib (c_int npol) [G1, G0] 0)))"

text \<open>
  A library whose routines return without writing to their buffers, on a platform that
  allocates arrays of up to \<open>2\<^sup>3\<^sup>2\<close> elements.
\<close>

definition idle_lib :: spectral_lib where
  "idle_lib =
     \<lparr>lib_zelegl = (\<lambda>n bufs i. bufs ! i),
      lib_zemngl2 = (\<lambda>n bufs i. bufs ! i),
      lib_def_lagrange_derivs_gll = (\<lambda>n bufs i. bufs ! i),
      zeros_error = (\<lambda>shape. if 2 ^ 32 < prod_list (map abs shape)
                               then Some MemoryError else None)\<rparr>"


section \<open>Data model of the database interface (instaseis/base\_instaseis\_db.py)\<close>

text \<open>
  The attributes of \<^verbatim>\<open>Source\<close>/\<^verbatim>\<open>ForceSource\<close>, \<^verbatim>\<open>Receiver\<close> and
  \<^verbatim>\<open>self.info\<close> that the code reads. \<open>is_force\<close> is
  \<^verbatim>\<open>isinstance(source, ForceSource)\<close>; an attribute that may be \<^verbatim>\<open>None\<close> (or
  absent, for \<open>src_origin_time\<close>, tested with \<^verbatim>\<open>hasattr\<close>) is an option.
\<close>

record source =
  is_force :: bool
  src_depth_in_m :: "real option"
  src_dt :: "real option"
  src_sliprate :: "real list option"
  src_time_shift :: "real option"
  src_origin_time :: "real option"

record receiver =
  station :: string
  network :: string
  rec_depth_in_m :: "real option"

record db_info =
  is_reciprocal :: bool
  info_components :: "string list"
  info_dt :: real
  info_npts :: nat
  info_nfft :: nat
  info_stf :: string
  info_slip :: "real list"
  info_sliprate :: "real list"
  info_src_shift :: real
  info_src_shift_samples :: int

text \<open>
  The dictionary returned by \<^verbatim>\<open>_get_seismograms\<close>: one array per component and the
  shear modulus under the key \<^verbatim>\<open>"mu"\<close>.
\<close>

record seis_data =
  series :: "string \<rightharpoonup> real list"
  mu :: real

record trace =
  tr_data :: "real list"
  tr_delta :: real
  tr_starttime :: "real option"
  tr_station :: string
  tr_network :: string
  tr_channel :: string
  tr_instaseis_mu :: "real option"

datatype seis_output = StreamOut "trace list" | DataOut seis_data

text \<open>
  An argument that is not yet a \<^verbatim>\<open>Source\<close> or \<^verbatim>\<open>Receiver\<close> object is parsed by
  \<^verbatim>\<open>Source.parse\<close> or \<^verbatim>\<open>Receiver.parse\<close> (module \<^verbatim>\<open>source\<close>, outside these
  sources); the raw argument carries what the parser returns or raises.
\<close>

datatype source_arg = SourceObj source | SourceRaw "error + source"

datatype receiver_arg = ReceiverObj receiver | ReceiverRaw "error + receiver list"

text \<open>
  Collaborators that are not part of these sources are parameters: the abstract method
  \<^verbatim>\<open>_get_seismograms\<close> of the concrete database class, the Lanczos resampler
  (\<^verbatim>\<open>data, old_start, old_dt, new_start, new_dt, new_npts, a, window\<close>), the FFT routines
  of NumPy, \<^verbatim>\<open>numpy.gradient\<close>, \<^verbatim>\<open>scipy.integrate.cumtrapz\<close> with
  \<^verbatim>\<open>initial=0.0\<close>, and \<^verbatim>\<open>helpers.get_band_code\<close>. The numeric kernels are taken as
  total functions on arrays; only the database method may raise. \<open>fl\<close> is the
  rounding of a real number to the nearest floating-point number of the platform, used by
  the scalar arithmetic of the time axis. The start time of a trace is a
  \<^verbatim>\<open>UTCDateTime\<close> of ObsPy, whose subtraction is taken as exact.
\<close>

record externals =
  get_seismograms_impl :: "source \<Rightarrow> receiver \<Rightarrow> string list \<Rightarrow> error + seis_data"
  lanczos_interpolation ::
    "real list \<Rightarrow> real \<Rightarrow> real \<Rightarrow> real \<Rightarrow> real \<Rightarrow> int \<Rightarrow> int \<Rightarrow> string \<Rightarrow> real list"
  rfft :: "real list \<Rightarrow> nat \<Rightarrow> complex list"
  irfft :: "complex list \<Rightarrow> real list"
  rfftfreq :: "nat \<Rightarrow> real list"
  gradient :: "real list \<Rightarrow> real \<Rightarrow> real list"
  cumtrapz :: "real list \<Rightarrow> real \<Rightarrow> real list"
  get_band_code :: "real \<Rightarrow> string"
  fl :: "real \<Rightarrow> real"

text \<open>Calls into the concrete database class, in the order they are made.\<close>

datatype db_call = GetSeismogramsCall source receiver "string list"

definition DEFAULT_MU :: real where
  "DEFAULT_MU = 32 * 10 ^ 9"


section \<open>get\_seismograms\<close>

subsection \<open>Sanity checks (lines 335--389)\<close>

definition get_seismograms_sanity_checks ::
  "db_info \<Rightarrow> source_arg \<Rightarrow> receiver_arg \<Rightarrow> string list \<Rightarrow> string
     \<Rightarrow> error + (source \<times> receiver)" where
  "get_seismograms_sanity_checks info source receiver components kind =
     (case (case source of SourceObj s \<Rightarrow> Inr s | SourceRaw parsed \<Rightarrow> parsed) of
        Inl e \<Rightarrow> Inl e
      | Inr src \<Rightarrow>
     (case (case receiver of
              ReceiverObj r \<Rightarrow> Inr r
            | ReceiverRaw parsed \<Rightarrow>
                (case parsed of Inl e \<Rightarrow> Inl e
                 | Inr recs \<Rightarrow>
                     if length recs \<noteq> 1
                     then Inl (ValueError
                            (''Receiver object/file contains multiple stations. ''
                             @ ''Please parse outside the get_seismograms() function ''
                             @ ''and call in a loop.''))
                     else Inr (hd recs))) of
        Inl e \<Rightarrow> Inl e
      | Inr rcv \<Rightarrow>
          if kind \<notin> set [''displacement'', ''velocity'', ''acceleration'']
          then Inl (ValueError (''unknown kind '' @ kind))
          else
            (case find (\<lambda>cmp. cmp \<notin> set [''N'', ''E'', ''Z'', ''R'', ''T'']) components of
               Some cmp \<Rightarrow> Inl (ValueError (''Invalid component: '' @ cmp))
             | None \<Rightarrow>
                 if is_reciprocal info then
                   if list_ex (\<lambda>cmp. cmp \<in> set components) [''N'', ''E'', ''R'', ''T'']
                      \<and> ''horizontal'' \<notin> set (info_components info)
                   then Inl (ValueError ''vertical component only DB'')
                   else if ''Z'' \<in> set components
                      \<and> ''vertical'' \<notin> set (info_components info)
                   then Inl (ValueError ''horizontal component only DB'')
                   else Inr (src, rcv)
                 else Inr (src, rcv))))"

subsection \<open>Derivative order (lines 90--112)\<close>

definition kind_map :: "(string \<times> int) list" where
  "kind_map = [(''displacement'', 0), (''velocity'', 1), (''acceleration'', 2)]"

definition stf_map :: "(string \<times> int) list" where
  "stf_map =
     [(''errorf'', 0), (''quheavi'', 0), (''dirac_0'', 1), (''gauss_0'', 1),
      (''gauss_1'', 2), (''gauss_2'', 3)]"

definition stf_deconv_map :: "db_info \<Rightarrow> (int \<times> real list) list" where
  "stf_deconv_map info = [(0, info_sliprate info), (1, info_slip info)]"

definition n_derivative :: "db_info \<Rightarrow> source \<Rightarrow> string \<Rightarrow> error + int" where
  "n_derivative info src kind =
     (case map_of kind_map kind of None \<Rightarrow> Inl (KeyError kind)
      | Some k \<Rightarrow>
     (case map_of stf_map (info_stf info) of None \<Rightarrow> Inl (KeyError (info_stf info))
      | Some s \<Rightarrow> Inr (if is_force src then k - s + 2 else k - s)))"

subsection \<open>The body of the component loop (lines 118--189)\<close>

text \<open>
  Lines 119--148. The three checks, in the order of the code, then the spectral division.
  The elementwise products of the spectra are over arrays of one length, the output
  length of \<^verbatim>\<open>rfft(..., n=nfft)\<close>.
\<close>

definition reconvolve ::
  "externals \<Rightarrow> db_info \<Rightarrow> source \<Rightarrow> string \<Rightarrow> seis_data \<Rightarrow> error + seis_data" where
  "reconvolve X info src cmp data =
     (case (src_dt src, src_sliprate src) of
        (Some sdt, Some ssliprate) \<Rightarrow>
          (case map_of stf_map (info_stf info) of None \<Rightarrow> Inl (KeyError (info_stf info))
           | Some order \<Rightarrow>
               if order \<notin> set [0, 1]
               then Inl (NotImplementedError
                           (''deconvolution not implemented for stf '' @ info_stf info))
               else
                 (case map_of (stf_deconv_map info) order of
                    None \<Rightarrow> Inl (KeyError ''stf_deconv_map'')
                  | Some ref_stf \<Rightarrow>
                      let stf_deconv_f = rfft X ref_stf (info_nfft info) in
                      (case py_div (fl X) (py_sub (fl X) sdt (info_dt info)) (info_dt info) of
                         Inl e \<Rightarrow> Inl e
                       | Inr rel \<Rightarrow>
                           if fl X (1 / 10 ^ 7) < \<bar>rel\<bar>
                           then Inl (ValueError ''dt of the source not compatible'')
                           else
                             let stf_conv_f0 = rfft X ssliprate (info_nfft info);
                                 stf_conv_f =
                                   (case src_time_shift src of None \<Rightarrow> stf_conv_f0
                                    | Some ts \<Rightarrow>
                                        map2 (\<lambda>c f. c * exp (- \<i> * of_real f * 2 * of_real pi
                                                        * of_real ts / of_real (info_dt info)))
                                          stf_conv_f0 (rfftfreq X (info_nfft info)))
                             in (case series data cmp of None \<Rightarrow> Inl (KeyError cmp)
                                 | Some d \<Rightarrow>
                                     let dataf = rfft X d (info_nfft info) in
                                     Inr (data\<lparr>series := (series data)(cmp \<mapsto>
                                       take (info_npts info)
                                         (irfft X (map2 (\<lambda>x y. x / y)
                                            (map2 (\<lambda>x y. x * y) dataf stf_conv_f)
                                            stf_deconv_f)))\<rparr>)))))
      | _ \<Rightarrow> Inl (ValueError ''source has no source time function''))"

text \<open>Lines 150--167, for a requested \<open>dt\<close>: the new array and the remaining time shift.\<close>

definition resample ::
  "externals \<Rightarrow> db_info \<Rightarrow> real \<Rightarrow> int \<Rightarrow> string \<Rightarrow> seis_data \<Rightarrow> error + (seis_data \<times> real)" where
  "resample X info dt a_lanczos cmp data =
     (case py_mod (fl X) (info_src_shift info) dt of Inl e \<Rightarrow> Inl e
      | Inr m \<Rightarrow>
          let shift = py_round (fl X) m 8 in
          (case series data cmp of None \<Rightarrow> Inl (KeyError cmp)
           | Some d \<Rightarrow>
               let duration =
                     py_sub (fl X) (py_mul (fl X) (of_int (int (length d) - 1)) (info_dt info))
                       shift in
               (case py_div (fl X) duration dt of Inl e \<Rightarrow> Inl e
                | Inr q \<Rightarrow>
                    let new_npts = py_int (py_round (fl X) q 6) + 1 in
                    Inr (data\<lparr>series := (series data)(cmp \<mapsto>
                           lanczos_interpolation X d 0 (info_dt info) shift dt new_npts
                             a_lanczos ''blackman'')\<rparr>,
                         py_sub (fl X) (info_src_shift info) shift))))"

text \<open>
  Lines 171--176. \<^verbatim>\<open>np.arange(n)\<close> has \<open>n\<close> elements for a positive \<open>n\<close> and none
  otherwise, so the first loop runs \<open>nat n\<close> times and the second \<open>nat (- n)\<close> times.
\<close>

fun gradient_loop ::
  "externals \<Rightarrow> real \<Rightarrow> string \<Rightarrow> nat \<Rightarrow> seis_data \<Rightarrow> error + seis_data" where
  "gradient_loop X dt_out cmp 0 data = Inr data"
| "gradient_loop X dt_out cmp (Suc k) data =
     (case series data cmp of None \<Rightarrow> Inl (KeyError cmp)
      | Some d \<Rightarrow>
          gradient_loop X dt_out cmp k
            (data\<lparr>series := (series data)(cmp \<mapsto> gradient X d dt_out)\<rparr>))"

fun cumtrapz_loop ::
  "externals \<Rightarrow> real \<Rightarrow> string \<Rightarrow> nat \<Rightarrow> seis_data \<Rightarrow> error + seis_data" where
  "cumtrapz_loop X dt_out cmp 0 data = Inr data"
| "cumtrapz_loop X dt_out cmp (Suc k) data =
     (case series data cmp of None \<Rightarrow> Inl (KeyError cmp)
      | Some d \<Rightarrow>
          cumtrapz_loop X dt_out cmp k
            (data\<lparr>series := (series data)(cmp \<mapsto> cumtrapz X d dt_out)\<rparr>))"

definition differentiate_integrate ::
  "externals \<Rightarrow> int \<Rightarrow> real \<Rightarrow> string \<Rightarrow> seis_data \<Rightarrow> error + seis_data" where
  "differentiate_integrate X n dt_out cmp data =
     (case gradient_loop X dt_out cmp (nat n) data of Inl e \<Rightarrow> Inl e
      | Inr data' \<Rightarrow> cumtrapz_loop X dt_out cmp (nat (- n)) data')"

text \<open>Lines 180--189: the array after the removal and the time shift that remains.\<close>

definition remove_shift ::
  "externals \<Rightarrow> db_info \<Rightarrow> bool \<Rightarrow> bool \<Rightarrow> real option \<Rightarrow> real \<Rightarrow> string \<Rightarrow> seis_data
     \<Rightarrow> error + (seis_data \<times> real)" where
  "remove_shift X info remove_source_shift reconvolve_stf dt time_shift cmp data =
     (if remove_source_shift then
        (case dt of
           Some dt' \<Rightarrow>
             (case py_div (fl X) time_shift dt' of Inl e \<Rightarrow> Inl e
              | Inr q \<Rightarrow>
             (case series data cmp of None \<Rightarrow> Inl (KeyError cmp)
              | Some d \<Rightarrow>
                  Inr (data\<lparr>series := (series data)(cmp \<mapsto> py_slice_from (py_int q) d)\<rparr>, 0)))
         | None \<Rightarrow>
             (case series data cmp of None \<Rightarrow> Inl (KeyError cmp)
              | Some d \<Rightarrow>
                  Inr (data\<lparr>series := (series data)(cmp \<mapsto>
                         py_slice_from (info_src_shift_samples info) d)\<rparr>, 0)))
      else if reconvolve_stf then Inr (data, 0)
      else Inr (data, time_shift))"

definition process_component ::
  "externals \<Rightarrow> db_info \<Rightarrow> source \<Rightarrow> bool \<Rightarrow> bool \<Rightarrow> real option \<Rightarrow> int \<Rightarrow> int \<Rightarrow> real
     \<Rightarrow> string \<Rightarrow> seis_data \<Rightarrow> error + (seis_data \<times> real)" where
  "process_component X info src remove_source_shift reconvolve_stf dt a_lanczos n dt_out
     cmp data =
     (case (if reconvolve_stf then reconvolve X info src cmp data else Inr data) of
        Inl e \<Rightarrow> Inl e
      | Inr data1 \<Rightarrow>
     (case (case dt of Some dt' \<Rightarrow> resample X info dt' a_lanczos cmp data1
            | None \<Rightarrow> Inr (data1, info_src_shift info)) of
        Inl e \<Rightarrow> Inl e
      | Inr (data2, time_shift) \<Rightarrow>
     (case differentiate_integrate X n dt_out cmp data2 of
        Inl e \<Rightarrow> Inl e
      | Inr data3 \<Rightarrow>
          remove_shift X info remove_source_shift reconvolve_stf dt time_shift cmp data3)))"

text \<open>
  The loop over the requested components. The local \<open>time_shift\<close> is bound by the first
  iteration only: it is an option, \<open>None\<close> while unbound.
\<close>

fun component_loop ::
  "externals \<Rightarrow> db_info \<Rightarrow> source \<Rightarrow> bool \<Rightarrow> bool \<Rightarrow> real option \<Rightarrow> int \<Rightarrow> int \<Rightarrow> real
     \<Rightarrow> string list \<Rightarrow> seis_data \<times> real option \<Rightarrow> error + (seis_data \<times> real option)" where
  "component_loop X info src rss rstf dt a n dt_out [] st = Inr st"
| "component_loop X info src rss rstf dt a n dt_out (cmp # cmps) st =
     (case process_component X info src rss rstf dt a n dt_out cmp (fst st) of
        Inl e \<Rightarrow> Inl e
      | Inr (data', time_shift) \<Rightarrow>
          component_loop X info src rss rstf dt a n dt_out cmps (data', Some time_shift))"

subsection \<open>Output assembly (lines 199--221)\<close>

text \<open>
  The loop that builds one \<^verbatim>\<open>Trace\<close> per requested component from a dictionary of
  arrays; \<open>mk\<close> fills in the header.
\<close>

fun stream_traces ::
  "(string \<rightharpoonup> real list) \<Rightarrow> (string \<Rightarrow> real list \<Rightarrow> trace) \<Rightarrow> string list
     \<Rightarrow> error + trace list" where
  "stream_traces arrays mk [] = Inr []"
| "stream_traces arrays mk (cmp # cmps) =
     (case arrays cmp of None \<Rightarrow> Inl (KeyError cmp)
      | Some d \<Rightarrow>
     (case stream_traces arrays mk cmps of Inl e \<Rightarrow> Inl e
      | Inr trs \<Rightarrow> Inr (mk cmp d # trs)))"

definition convert_to_stream ::
  "externals \<Rightarrow> source \<Rightarrow> receiver \<Rightarrow> string list \<Rightarrow> seis_data \<Rightarrow> real \<Rightarrow> real
     \<Rightarrow> error + trace list" where
  "convert_to_stream X src rcv components data dt_out time_shift =
     (let origin_time =
            (case src_origin_time src of Some t \<Rightarrow> t | None \<Rightarrow> 0) - time_shift;
          band_code = get_band_code X dt_out
      in stream_traces (series data)
           (\<lambda>cmp d. \<lparr>tr_data = d, tr_delta = dt_out, tr_starttime = Some origin_time,
                       tr_station = station rcv, tr_network = network rcv,
                       tr_channel = band_code @ ''X'' @ cmp,
                       tr_instaseis_mu = Some (mu data)\<rparr>)
           components)"

subsection \<open>The method (lines 78--197)\<close>

text \<open>Lines 85--197: everything after the data has come back from the database.\<close>

definition process_extracted ::
  "externals \<Rightarrow> db_info \<Rightarrow> source \<Rightarrow> receiver \<Rightarrow> string list \<Rightarrow> string \<Rightarrow> bool \<Rightarrow> bool
     \<Rightarrow> bool \<Rightarrow> real option \<Rightarrow> int \<Rightarrow> seis_data \<Rightarrow> error + seis_output" where
  "process_extracted X info src rcv components kind remove_source_shift reconvolve_stf
     return_obspy_stream dt a_lanczos data =
     (let dt_out = (case dt of None \<Rightarrow> info_dt info | Some dt' \<Rightarrow> dt') in
      case n_derivative info src kind of Inl e \<Rightarrow> Inl e
      | Inr n \<Rightarrow>
          if reconvolve_stf \<and> remove_source_shift
          then Inl (ValueError
                 '''remove_source_shift' argument not compatible with 'reconvolve_stf'.'')
          else
            (case component_loop X info src remove_source_shift reconvolve_stf dt a_lanczos
                    n dt_out components (data, None) of
               Inl e \<Rightarrow> Inl e
             | Inr (data', time_shift) \<Rightarrow>
                 if return_obspy_stream then
                   (case time_shift of None \<Rightarrow> Inl (UnboundLocalError ''time_shift'')
                    | Some ts \<Rightarrow>
                        (case convert_to_stream X src rcv components data' dt_out ts of
                           Inl e \<Rightarrow> Inl e
                         | Inr st \<Rightarrow> Inr (StreamOut st)))
                 else Inr (DataOut data')))"

text \<open>
  The method returns its result together with the calls it made into the database class.
\<close>

definition get_seismograms ::
  "externals \<Rightarrow> db_info \<Rightarrow> source_arg \<Rightarrow> receiver_arg \<Rightarrow> string list \<Rightarrow> string \<Rightarrow> bool
     \<Rightarrow> bool \<Rightarrow> bool \<Rightarrow> real option \<Rightarrow> int \<Rightarrow> db_call list \<times> (error + seis_output)" where
  "get_seismograms X info source receiver components kind remove_source_shift
     reconvolve_stf return_obspy_stream dt a_lanczos =
     (case get_seismograms_sanity_checks info source receiver components kind of
        Inl e \<Rightarrow> ([], Inl e)
      | Inr (src, rcv) \<Rightarrow>
          ([GetSeismogramsCall src rcv components],
           (case get_seismograms_impl X src rcv components of Inl e \<Rightarrow> Inl e
            | Inr data \<Rightarrow>
                process_extracted X info src rcv components kind remove_source_shift
                  reconvolve_stf return_obspy_stream dt a_lanczos data)))"


section \<open>get\_seismograms\_finite\_source (lines 282--333)\<close>

text \<open>
  Lines 292--301. With \<open>correct_mu\<close> the factor is written with a trailing comma and is
  a one-element tuple; otherwise it is the integer 1.
\<close>

definition corr_fac :: "bool \<Rightarrow> seis_data \<Rightarrow> factor" where
  "corr_fac correct_mu data =
     (if correct_mu then Tuple [mu data / DEFAULT_MU] else Scalar 1)"

fun sum_components ::
  "factor \<Rightarrow> seis_data \<Rightarrow> string list \<Rightarrow> (string \<rightharpoonup> real list)
     \<Rightarrow> error + (string \<rightharpoonup> real list)" where
  "sum_components fac data [] data_summed = Inr data_summed"
| "sum_components fac data (cmp # cmps) data_summed =
     (case series data cmp of None \<Rightarrow> Inl (KeyError cmp)
      | Some d \<Rightarrow>
     (case ndarray_mul d fac of Inl e \<Rightarrow> Inl e
      | Inr contribution \<Rightarrow>
     (case data_summed cmp of
        Some s \<Rightarrow>
          (case ndarray_iadd s contribution of Inl e \<Rightarrow> Inl e
           | Inr s' \<Rightarrow> sum_components fac data cmps (data_summed(cmp \<mapsto> s')))
      | None \<Rightarrow> sum_components fac data cmps (data_summed(cmp \<mapsto> contribution)))))"

text \<open>
  Lines 287--305. The state of the loop is \<open>data_summed\<close> and the local \<open>data\<close> of the
  last iteration (\<open>None\<close> while unbound); the loop returns \<open>None\<close> when the callback
  cancels. The call of \<^verbatim>\<open>get_seismograms\<close> passes the source, the receiver, the
  components and three flags; \<open>kind\<close>, \<open>dt\<close> and \<open>a_lanczos\<close> take their defaults.
\<close>

fun source_loop ::
  "externals \<Rightarrow> db_info \<Rightarrow> receiver_arg \<Rightarrow> string list \<Rightarrow> bool \<Rightarrow> (nat \<Rightarrow> nat \<Rightarrow> bool) option
     \<Rightarrow> nat \<Rightarrow> nat \<Rightarrow> source_arg list \<Rightarrow> (string \<rightharpoonup> real list) \<times> seis_data option
     \<Rightarrow> error + ((string \<rightharpoonup> real list) \<times> seis_data option) option" where
  "source_loop X info receiver components correct_mu progress_callback count i [] st =
     Inr (Some st)"
| "source_loop X info receiver components correct_mu progress_callback count i
     (source # sources) st =
     (case snd (get_seismograms X info source receiver components ''displacement''
                  False True False None 5) of
        Inl e \<Rightarrow> Inl e
      | Inr (StreamOut st') \<Rightarrow> Inl (TypeError ''Stream'')
      | Inr (DataOut data) \<Rightarrow>
     (case sum_components (corr_fac correct_mu data) data components (fst st) of
        Inl e \<Rightarrow> Inl e
      | Inr data_summed \<Rightarrow>
          if (case progress_callback of None \<Rightarrow> False
              | Some callback \<Rightarrow> callback (i + 1) count)
          then Inr None
          else source_loop X info receiver components correct_mu progress_callback count
                 (i + 1) sources (data_summed, Some data)))"

text \<open>Lines 307--319, for a requested \<open>dt\<close>.\<close>

fun final_resample ::
  "externals \<Rightarrow> db_info \<Rightarrow> real \<Rightarrow> int \<Rightarrow> seis_data option \<Rightarrow> string list
     \<Rightarrow> (string \<rightharpoonup> real list) \<Rightarrow> error + (string \<rightharpoonup> real list)" where
  "final_resample X info dt a_lanczos data [] data_summed = Inr data_summed"
| "final_resample X info dt a_lanczos data (cmp # cmps) data_summed =
     (case py_div (fl X) (info_src_shift info) dt of Inl e \<Rightarrow> Inl e
      | Inr q \<Rightarrow>
          let starttime =
                py_round (fl X)
                  (py_sub (fl X) (info_src_shift info)
                     (py_mul (fl X) (of_int (py_int (py_round (fl X) q 5))) dt)) 5 in
          (case data of None \<Rightarrow> Inl (UnboundLocalError ''data'')
           | Some dat \<Rightarrow>
          (case series dat cmp of None \<Rightarrow> Inl (KeyError cmp)
           | Some d \<Rightarrow>
               let duration =
                     py_sub (fl X) (py_mul (fl X) (of_int (int (length d) - 1)) (info_dt info))
                       starttime in
               (case py_div (fl X) duration dt of Inl e \<Rightarrow> Inl e
                | Inr q' \<Rightarrow>
                    let new_npts = py_int (py_round (fl X) q' 5) + 1 in
                    final_resample X info dt a_lanczos data cmps
                      (data_summed(cmp \<mapsto>
                         lanczos_interpolation X d 0 (info_dt info) starttime dt new_npts
                           a_lanczos ''blackman''))))))"

definition get_seismograms_finite_source ::
  "externals \<Rightarrow> db_info \<Rightarrow> source_arg list \<Rightarrow> receiver_arg \<Rightarrow> string list \<Rightarrow> string
     \<Rightarrow> real option \<Rightarrow> int \<Rightarrow> bool \<Rightarrow> (nat \<Rightarrow> nat \<Rightarrow> bool) option
     \<Rightarrow> error + trace list option" where
  "get_seismograms_finite_source X info sources receiver components kind dt a_lanczos
     correct_mu progress_callback =
     (if \<not> is_reciprocal info then Inl (NotImplementedError [])
      else
        (case source_loop X info receiver components correct_mu progress_callback
                (length sources) 0 sources (Map.empty, None) of
           Inl e \<Rightarrow> Inl e
         | Inr None \<Rightarrow> Inr None
         | Inr (Some (data_summed, data)) \<Rightarrow>
        (case (case dt of
                 Some dt' \<Rightarrow> final_resample X info dt' a_lanczos data components data_summed
               | None \<Rightarrow> Inr data_summed) of
           Inl e \<Rightarrow> Inl e
         | Inr data_summed' \<Rightarrow>
             let dt_tr = (case dt of None \<Rightarrow> info_dt info | Some dt' \<Rightarrow> dt');
                 band_code = get_band_code X dt_tr
             in if components = [] then Inr (Some [])
                else
                  (case receiver of
                     ReceiverRaw parsed \<Rightarrow>
                       (case data_summed' (hd components) of
                          None \<Rightarrow> Inl (KeyError (hd components))
                        | Some d \<Rightarrow> Inl (AttributeError ''station''))
                   | ReceiverObj r \<Rightarrow>
                  (case stream_traces data_summed'
                          (\<lambda>cmp d. \<lparr>tr_data = d, tr_delta = dt_tr, tr_starttime = None,
                                      tr_station = station r, tr_network = network r,
                                      tr_channel = band_code @ ''X'' @ cmp,
                                      tr_instaseis_mu = None\<rparr>)
                          components of
                     Inl e \<Rightarrow> Inl e
                   | Inr st \<Rightarrow> Inr (Some st))))))"


section \<open>A small database for concrete runs\<close>

text \<open>
  Reference versions of the numeric collaborators, for runs on concrete inputs.
  \<open>np_gradient\<close> is \<^verbatim>\<open>numpy.gradient\<close> with uniform spacing on an array of at least
  two samples (one-sided differences at the ends, central differences inside);
  \<open>sp_cumtrapz\<close> is \<^verbatim>\<open>cumtrapz(y, dx=h, initial=0.0)\<close>. \<open>rfft2\<close> and \<open>irfft2\<close>
  are the real discrete Fourier transform and its inverse for \<open>n = 2\<close>, where both are
  real: \<open>[x0 + x1, x0 - x1]\<close> and \<open>[(a + b) / 2, (a - b) / 2]\<close>. \<open>same_grid_lanczos\<close>
  keeps the first \<open>new_npts\<close> samples, which is what interpolation returns when the
  new grid is the old one (\<open>new_start = old_start\<close>, \<open>new_dt = old_dt\<close>).
  The rounding \<open>fl\<close> of the runs is the identity: the runs use numbers with a short
  binary expansion only, on which every operation of the time axis is exact.
\<close>

definition np_gradient :: "real list \<Rightarrow> real \<Rightarrow> real list" where
  "np_gradient y h =
     (let n = length y in
      if n < 2 then []
      else map (\<lambda>i. if i = 0 then (y ! 1 - y ! 0) / h
                     else if i = n - 1 then (y ! (n - 1) - y ! (n - 2)) / h
                     else (y ! (i + 1) - y ! (i - 1)) / (2 * h)) [0..<n])"

fun cumtrapz_from :: "real \<Rightarrow> real \<Rightarrow> real \<Rightarrow> real list \<Rightarrow> real list" where
  "cumtrapz_from h acc prev [] = []"
| "cumtrapz_from h acc prev (y # ys) =
     (acc + (prev + y) / 2 * h) # cumtrapz_from h (acc + (prev + y) / 2 * h) y ys"

definition sp_cumtrapz :: "real list \<Rightarrow> real \<Rightarrow> real list" where
  "sp_cumtrapz y h = (case y of [] \<Rightarrow> [0] | y0 # ys \<Rightarrow> 0 # cumtrapz_from h 0 y0 ys)"

definition rfft2 :: "real list \<Rightarrow> nat \<Rightarrow> complex list" where
  "rfft2 x n =
     (let x0 = (if 0 < length x then x ! 0 else 0);
          x1 = (if 1 < length x then x ! 1 else 0)
      in [complex_of_real (x0 + x1), complex_of_real (x0 - x1)])"

definition irfft2 :: "complex list \<Rightarrow> real list" where
  "irfft2 c = (case c of [a, b] \<Rightarrow> [Re ((a + b) / 2), Re ((a - b) / 2)] | _ \<Rightarrow> [])"

definition same_grid_lanczos ::
  "real list \<Rightarrow> real \<Rightarrow> real \<Rightarrow> real \<Rightarrow> real \<Rightarrow> int \<Rightarrow> int \<Rightarrow> string \<Rightarrow> real list" where
  "same_grid_lanczos data old_start old_dt new_start new_dt new_npts a window =
     take (nat new_npts) data"

text \<open>
  The database of the runs stores, for every requested component, the two samples
  \<open>[z, 2 z]\<close> for a source at depth \<open>z\<close> (\<open>[1, 2]\<close> without a depth), and reports a
  shear modulus of \<open>64e9\<close>.
\<close>

definition demo_impl :: "source \<Rightarrow> receiver \<Rightarrow> string list \<Rightarrow> error + seis_data" where
  "demo_impl src rcv components =
     (let z = (case src_depth_in_m src of Some z \<Rightarrow> z | None \<Rightarrow> 1)
      in Inr \<lparr>series = map_of (map (\<lambda>c. (c, [z, 2 * z])) components),
              mu = 64 * 10 ^ 9\<rparr>)"

definition demo_X :: externals where
  "demo_X =
     \<lparr>get_seismograms_impl = demo_impl,
      lanczos_interpolation = same_grid_lanczos,
      rfft = rfft2, irfft = irfft2, rfftfreq = (\<lambda>n. [0, 1 / 2]),
      gradient = np_gradient, cumtrapz = sp_cumtrapz,
      get_band_code = (\<lambda>dt. ''L''), fl = (\<lambda>x. x)\<rparr>"

text \<open>A resampler that returns the numbers it was called with, to read them off.\<close>

definition probe_X :: externals where
  "probe_X =
     demo_X\<lparr>lanczos_interpolation :=
       (\<lambda>data old_start old_dt new_start new_dt new_npts a window.
          [old_start, old_dt, new_start, new_dt, of_int new_npts, of_int a])\<rparr>"

definition demo_info :: db_info where
  "demo_info =
     \<lparr>is_reciprocal = True, info_components = [''vertical'', ''horizontal''],
      info_dt = 1, info_npts = 2, info_nfft = 2, info_stf = ''gauss_0'',
      info_slip = [1, 0], info_sliprate = [1, 0],
      info_src_shift = 0, info_src_shift_samples = 0\<rparr>"

definition demo_source :: "real \<Rightarrow> source" where
  "demo_source z =
     \<lparr>is_force = False, src_depth_in_m = Some z, src_dt = Some 1,
      src_sliprate = Some [1, 0], src_time_shift = None, src_origin_time = Some 100\<rparr>"

definition demo_receiver :: receiver where
  "demo_receiver = \<lparr>station = ''STA'', network = ''NW'', rec_depth_in_m = None\<rparr>"


section \<open>The processing of one array, stage by stage\<close>











text \<open>The orders of the claim about the derivative count, as the specification lists them.\<close>

definition kind_order :: "string \<Rightarrow> int" where
  "kind_order kind =
     (if kind = ''displacement'' then 0 else if kind = ''velocity'' then 1 else 2)"

definition stf_order :: "string \<Rightarrow> int" where
  "stf_order tag =
     (if tag = ''errorf'' \<or> tag = ''quheavi'' then 0
      else if tag = ''dirac_0'' \<or> tag = ''gauss_0'' then 1
      else if tag = ''gauss_1'' then 2 else 3)"

definition known_stf :: "string \<Rightarrow> bool" where
  "known_stf tag \<longleftrightarrow>
     tag \<in> set [''errorf'', ''quheavi'', ''dirac_0'', ''gauss_0'', ''gauss_1'', ''gauss_2'']"

text \<open>
  The running sum of the finite-source method as the specification describes it: the
  contribution of a source to a component is its array, scaled by the shear modulus of
  the source over the reference constant when the correction is requested; it becomes the
  sum of the component when there is none yet and is added to it sample by sample
  otherwise, once for every place of the component in the tuple of components.
\<close>

definition scaled_contribution :: "bool \<Rightarrow> seis_data \<Rightarrow> real list \<Rightarrow> real list" where
  "scaled_contribution correct_mu data d =
     (if correct_mu then map (\<lambda>x. x * (mu data / DEFAULT_MU)) d else d)"

definition add_contribution ::
  "bool \<Rightarrow> seis_data \<Rightarrow> string \<Rightarrow> (string \<rightharpoonup> real list) \<Rightarrow> (string \<rightharpoonup> real list)" where
  "add_contribution correct_mu data c summed =
     (case series data c of None \<Rightarrow> summed
      | Some d \<Rightarrow>
          summed(c \<mapsto>
            (case summed c of None \<Rightarrow> scaled_contribution correct_mu data d
             | Some s \<Rightarrow> map2 (\<lambda>x y. x + y) s (scaled_contribution correct_mu data d))))"

definition running_sum ::
  "bool \<Rightarrow> string list \<Rightarrow> seis_data list \<Rightarrow> (string \<rightharpoonup> real list)" where
  "running_sum correct_mu components datas =
     fold (\<lambda>data. fold (add_contribution correct_mu data) components) datas Map.empty"


section \<open>Auxiliary facts\<close>

text \<open>Unfolding sets for runs on concrete inputs.\<close>

lemmas demo_defs = demo_X_def demo_info_def demo_source_def demo_receiver_def demo_impl_def
  np_gradient_def sp_cumtrapz_def rfft2_def irfft2_def same_grid_lanczos_def probe_X_def
lemmas gs_defs = get_seismograms_def get_seismograms_sanity_checks_def process_extracted_def
  n_derivative_def kind_map_def stf_map_def stf_deconv_map_def process_component_def
  reconvolve_def resample_def differentiate_integrate_def remove_shift_def
  convert_to_stream_def py_div_def py_mod_def py_round_def py_int_def py_slice_from_def
  py_sub_def py_mul_def float_mod_def c_fmod_def decimal_round_def
lemmas fs_defs = get_seismograms_finite_source_def corr_fac_def ndarray_mul_def
  ndarray_iadd_def broadcast2_def DEFAULT_MU_def








lemma stream_traces_present:
  "\<forall>c\<in>set cmps. arrays c \<noteq> None \<Longrightarrow>
   stream_traces arrays mk cmps = Inr (map (\<lambda>c. mk c (the (arrays c))) cmps)"
  by (induction cmps) auto

lemma sanity_checks_kind:
  "get_seismograms_sanity_checks info source receiver components kind = Inr (src, rcv) \<Longrightarrow>
   kind \<in> set [''displacement'', ''velocity'', ''acceleration'']"
  unfolding get_seismograms_sanity_checks_def
  by (auto split: sum.splits if_splits option.splits)

lemma n_derivative_value:
  assumes "kind \<in> set [''displacement'', ''velocity'', ''acceleration'']"
    and "known_stf (info_stf info)"
  shows "n_derivative info src kind =
         Inr (kind_order kind - stf_order (info_stf info) + (if is_force src then 2 else 0))"
  using assms
  by (auto simp: n_derivative_def kind_map_def stf_map_def kind_order_def stf_order_def
      known_stf_def)




section \<open>Order validation in the spectral basis wrappers\<close>

text \<open>
  Claim C9, as stated: for every order \<open>n < 1\<close> each wrapper rejects the order before
  any computation. At \<open>n = 0\<close> none of the four wrappers rejects: each allocates its
  buffers and returns what the compiled routine left in them.
\<close>

theorem spectral_order_zero_accepted:
  "zelegl idle_lib 0 = Inr [0] \<and> zemngl2 idle_lib 0 = Inr [0]
   \<and> def_lagrange_derivs_gll idle_lib 0 = Inr [0]
   \<and> def_lagrange_derivs_glj idle_lib 0 = Inr ([0], [0])"
  by (simp add: zelegl_def zemngl2_def def_lagrange_derivs_gll_def def_lagrange_derivs_glj_def
      np_zeros_def idle_lib_def c_int_def)

text \<open>
  Claim C9, amended: the wrappers have no check of the order. For every \<open>n\<close> a
  wrapper first allocates its buffers of \<open>n + 1\<close> (and \<open>(n + 1)\<^sup>2\<close>) zeros; when the
  platform cannot allocate a buffer the error of the allocation is raised, and for
  \<open>n < - 1\<close> the allocation raises \<^verbatim>\<open>ValueError\<close> (negative dimensions); in every
  other case the order, converted by \<^verbatim>\<open>c_int\<close>, and the buffers go to the compiled
  routine, whose output is returned. So an order is rejected only by a failing allocation,
  and the orders \<open>0\<close> and \<open>- 1\<close> reach the routine whenever a buffer of one or zero
  elements can be allocated.
\<close>

theorem spectral_wrappers_allocate_then_call:
  "zelegl lib n =
     (case zeros_error lib [n + 1] of Some e \<Rightarrow> Inl e
      | None \<Rightarrow>
          if n < - 1 then Inl (ValueError ''negative dimensions are not allowed'')
          else Inr (lib_zelegl lib (c_int n) [replicate (nat (n + 1)) 0] 0))
   \<and> zemngl2 lib n =
     (case zeros_error lib [n + 1] of Some e \<Rightarrow> Inl e
      | None \<Rightarrow>
          if n < - 1 then Inl (ValueError ''negative dimensions are not allowed'')
          else Inr (lib_zemngl2 lib (c_int n) [replicate (nat (n + 1)) 0] 0))
   \<and> def_lagrange_derivs_gll lib n =
     (case zeros_error lib [n + 1, n + 1] of Some e \<Rightarrow> Inl e
      | None \<Rightarrow>
          if n < - 1 then Inl (ValueError ''negative dimensions are not allowed'')
          else Inr (lib_def_lagrange_derivs_gll lib (c_int n)
                      [replicate (nat (n + 1) * nat (n + 1)) 0] 0))
   \<and> def_lagrange_derivs_glj lib n =
     (case zeros_error lib [n + 1] of Some e \<Rightarrow> Inl e
      | None \<Rightarrow>
          if n < - 1 then Inl (ValueError ''negative dimensions are not allowed'')
          else
            (case zeros_error lib [n + 1, n + 1] of Some e \<Rightarrow> Inl e
             | None \<Rightarrow>
                 Inr (lib_def_lagrange_derivs_gll lib (c_int n)
                        [replicate (nat (n + 1) * nat (n + 1)) 0, replicate (nat (n + 1)) 0] 1,
                      lib_def_lagrange_derivs_gll lib (c_int n)
                        [replicate (nat (n + 1) * nat (n + 1)) 0, replicate (nat (n + 1)) 0] 0)))"
  by (simp add: zelegl_def zemngl2_def def_lagrange_derivs_gll_def def_lagrange_derivs_glj_def
      np_zeros_def split: option.splits)


section \<open>The number of differentiations and integrations\<close>





section \<open>Mutually exclusive flags\<close>

text \<open>
  Claim C3, as stated: with \<open>reconvolve_stf\<close> and \<open>remove_source_shift\<close> both set the
  call is rejected before any data is extracted through \<^verbatim>\<open>_get_seismograms\<close>. In
  the run below the rejection comes after the call into the database class, which is in
  the list of calls made.
\<close>

theorem mutual_exclusion_raised_after_extraction:
  "get_seismograms demo_X demo_info (SourceObj (demo_source 1)) (ReceiverObj demo_receiver)
     [''Z''] ''displacement'' True True True None 5 =
   ([GetSeismogramsCall (demo_source 1) demo_receiver [''Z'']],
    Inl (ValueError '''remove_source_shift' argument not compatible with 'reconvolve_stf'.''))"
  by (simp add: demo_defs gs_defs Let_def)

text \<open>
  Claim C3, amended: once the sanity checks have passed, a call with both flags set first
  extracts the data through \<^verbatim>\<open>_get_seismograms\<close> (exactly one call); an error of the
  extraction is passed on, and when the extraction returns and the stored STF tag is one
  of the six tags of the table, the call raises the \<^verbatim>\<open>ValueError\<close> that names the two
  flags, whatever the components, the kind and the other options.
\<close>

theorem mutual_exclusion_check:
  assumes "get_seismograms_sanity_checks info source receiver components kind = Inr (src, rcv)"
  shows "fst (get_seismograms X info source receiver components kind True True ros dt a) =
           [GetSeismogramsCall src rcv components]
     \<and> (\<forall>e. get_seismograms_impl X src rcv components = Inl e \<longrightarrow>
           snd (get_seismograms X info source receiver components kind True True ros dt a) =
             Inl e)
     \<and> (\<forall>data. get_seismograms_impl X src rcv components = Inr data \<longrightarrow>
           known_stf (info_stf info) \<longrightarrow>
           snd (get_seismograms X info source receiver components kind True True ros dt a) =
             Inl (ValueError
               '''remove_source_shift' argument not compatible with 'reconvolve_stf'.''))"
  using n_derivative_value [OF sanity_checks_kind [OF assms], of info src]
  by (simp add: get_seismograms_def assms process_extracted_def Let_def)

theorem mutual_exclusion_check_witness:
  "get_seismograms_sanity_checks demo_info (SourceObj (demo_source 1))
     (ReceiverObj demo_receiver) [''Z''] ''velocity'' = Inr (demo_source 1, demo_receiver)
   \<and> known_stf (info_stf demo_info)
   \<and> fst (get_seismograms demo_X demo_info (SourceObj (demo_source 1))
        (ReceiverObj demo_receiver) [''Z''] ''velocity'' True True False None 5) =
       [GetSeismogramsCall (demo_source 1) demo_receiver [''Z'']]
   \<and> snd (get_seismograms demo_X demo_info (SourceObj (demo_source 1))
        (ReceiverObj demo_receiver) [''Z''] ''velocity'' True True False None 5) =
       Inl (ValueError '''remove_source_shift' argument not compatible with 'reconvolve_stf'.'')"
proof -
  have h1: "get_seismograms_sanity_checks demo_info (SourceObj (demo_source 1))
     (ReceiverObj demo_receiver) [''Z''] ''velocity'' = Inr (demo_source 1, demo_receiver)"
    by (simp add: get_seismograms_sanity_checks_def demo_defs)
  have h2: "get_seismograms_impl demo_X (demo_source 1) demo_receiver [''Z''] =
      Inr \<lparr>series = [''Z'' \<mapsto> [1, 2]], mu = 64 * 10 ^ 9\<rparr>"
    by (simp add: demo_defs)
  have h3: "known_stf (info_stf demo_info)" by (simp add: known_stf_def demo_defs)
  from mutual_exclusion_check [OF h1, of demo_X False None 5] h1 h2 h3
  show ?thesis by simp
qed


section \<open>An empty tuple of components\<close>

text \<open>
  With no component requested and \<open>reconvolve_stf\<close> set, the checks of the
  reconvolution are never reached: the outcome is the error of the mutually exclusive
  flags, or the unchanged data of the database, or, for the stream output, the failure
  of the unbound local \<open>time_shift\<close>.
\<close>

lemma empty_components_result:
  assumes "get_seismograms_sanity_checks info source receiver [] kind = Inr (src, rcv)"
    and "get_seismograms_impl X src rcv [] = Inr data"
    and "known_stf (info_stf info)"
  shows "snd (get_seismograms X info source receiver [] kind rss True ros dt a) =
     (if rss then Inl (ValueError
            '''remove_source_shift' argument not compatible with 'reconvolve_stf'.'')
      else if ros then Inl (UnboundLocalError ''time_shift'')
      else Inr (DataOut data))"
  using n_derivative_value [OF sanity_checks_kind [OF assms(1)] assms(3), of src]
  by (simp add: get_seismograms_def assms process_extracted_def Let_def)

text \<open>
  Claim C10: a call with an empty tuple of components and \<open>reconvolve_stf\<close> set
  completes without any reconvolution check. With the default stream output it does not
  complete: \<open>time_shift\<close> is assigned in the loop body only, and the output assembly
  reads it.
\<close>

theorem empty_components_unbound_time_shift:
  "get_seismograms demo_X demo_info (SourceObj (demo_source 1)) (ReceiverObj demo_receiver)
     [] ''displacement'' False True True None 5 =
   ([GetSeismogramsCall (demo_source 1) demo_receiver []],
    Inl (UnboundLocalError ''time_shift''))"
  by (simp add: demo_defs gs_defs Let_def)


section \<open>Resampling to a requested sampling interval\<close>





section \<open>Removal of the source shift and the start time\<close>





section \<open>Errors of the reconvolution\<close>

text \<open>
  Which errors the stages of the loop body can raise, and where a
  \<^verbatim>\<open>NotImplementedError\<close> can come from.
\<close>

lemma known_stf_order:
  "known_stf tag \<Longrightarrow> map_of stf_map tag = Some (stf_order tag)"
  by (auto simp: known_stf_def stf_map_def stf_order_def)

lemma reconvolve_no_stf:
  "src_dt src = None \<or> src_sliprate src = None \<Longrightarrow>
   reconvolve X info src cmp data = Inl (ValueError ''source has no source time function'')"
  by (auto simp: reconvolve_def split: option.splits)

lemma reconvolve_not_implemented:
  "src_dt src = Some sdt \<Longrightarrow> src_sliprate src = Some ss \<Longrightarrow>
   map_of stf_map (info_stf info) = Some order \<Longrightarrow> order \<noteq> 0 \<Longrightarrow> order \<noteq> 1 \<Longrightarrow>
   reconvolve X info src cmp data =
     Inl (NotImplementedError (''deconvolution not implemented for stf '' @ info_stf info))"
  by (simp add: reconvolve_def)

lemma reconvolve_dt_mismatch:
  "src_dt src = Some sdt \<Longrightarrow> src_sliprate src = Some ss \<Longrightarrow>
   map_of stf_map (info_stf info) = Some order \<Longrightarrow> order = 0 \<or> order = 1 \<Longrightarrow>
   info_dt info \<noteq> 0 \<Longrightarrow>
   fl X (1 / 10 ^ 7) < \<bar>fl X (py_sub (fl X) sdt (info_dt info) / info_dt info)\<bar> \<Longrightarrow>
   reconvolve X info src cmp data = Inl (ValueError ''dt of the source not compatible'')"
  by (auto simp: reconvolve_def stf_deconv_map_def py_div_def Let_def)

lemma reconvolve_NotImplementedD:
  "reconvolve X info src cmp data = Inl (NotImplementedError m) \<Longrightarrow>
   src_dt src \<noteq> None \<and> src_sliprate src \<noteq> None \<and>
   (\<exists>order. map_of stf_map (info_stf info) = Some order \<and> order \<noteq> 0 \<and> order \<noteq> 1)"
  by (auto simp: reconvolve_def stf_deconv_map_def py_div_def Let_def
      split: option.splits if_splits)

lemma gradient_loop_error:
  "gradient_loop X h cmp k data = Inl e \<Longrightarrow> e = KeyError cmp"
  by (induction k arbitrary: data) (auto split: option.splits)

lemma cumtrapz_loop_error:
  "cumtrapz_loop X h cmp k data = Inl e \<Longrightarrow> e = KeyError cmp"
  by (induction k arbitrary: data) (auto split: option.splits)

lemma differentiate_integrate_error:
  "differentiate_integrate X n h cmp data = Inl e \<Longrightarrow> e = KeyError cmp"
  by (auto simp: differentiate_integrate_def split: sum.splits
      dest: gradient_loop_error cumtrapz_loop_error)

lemma resample_error:
  "resample X info dt a cmp data = Inl e \<Longrightarrow> e = KeyError cmp \<or> e = ZeroDivisionError"
  by (auto simp: resample_def py_mod_def py_div_def Let_def split: option.splits if_splits)

lemma remove_shift_error:
  "remove_shift X info rss rstf dt ts cmp data = Inl e \<Longrightarrow>
   e = KeyError cmp \<or> e = ZeroDivisionError"
  by (auto simp: remove_shift_def py_div_def split: option.splits if_splits)

lemma process_component_NotImplementedD:
  assumes "process_component X info src rss rstf dt a n h cmp data =
             Inl (NotImplementedError m)"
  shows "rstf \<and> reconvolve X info src cmp data = Inl (NotImplementedError m)"
  using assms
  by (auto simp: process_component_def split: sum.splits option.splits if_splits prod.splits
      dest: resample_error differentiate_integrate_error remove_shift_error)

lemma component_loop_NotImplementedD:
  "component_loop X info src rss rstf dt a n h cmps st = Inl (NotImplementedError m) \<Longrightarrow>
   rstf \<and> src_dt src \<noteq> None \<and> src_sliprate src \<noteq> None \<and>
   (\<exists>order. map_of stf_map (info_stf info) = Some order \<and> order \<noteq> 0 \<and> order \<noteq> 1)"
proof (induction cmps arbitrary: st)
  case Nil
  then show ?case by simp
next
  case (Cons c cs)
  show ?case
  proof (cases "process_component X info src rss rstf dt a n h c (fst st)")
    case (Inl e)
    with Cons.prems have "e = NotImplementedError m" by simp
    with Inl show ?thesis
      using process_component_NotImplementedD reconvolve_NotImplementedD by blast
  next
    case (Inr r)
    with Cons.prems show ?thesis
      by (cases r) (auto dest: Cons.IH)
  qed
qed

lemma stream_traces_error:
  "stream_traces arrays mk cmps = Inl e \<Longrightarrow> \<exists>c. e = KeyError c"
  by (induction cmps arbitrary: e) (auto split: option.splits sum.splits)

lemma process_extracted_NotImplementedD:
  assumes "process_extracted X info src rcv components kind rss rstf ros dt a data =
             Inl (NotImplementedError m)"
  shows "rstf \<and> src_dt src \<noteq> None \<and> src_sliprate src \<noteq> None \<and>
   (\<exists>order. map_of stf_map (info_stf info) = Some order \<and> order \<noteq> 0 \<and> order \<noteq> 1)"
proof -
  have nd: "n_derivative info src kind \<noteq> Inl (NotImplementedError m)"
    by (auto simp: n_derivative_def split: option.splits)
  from assms obtain n where
    loop: "component_loop X info src rss rstf dt a n
             (case dt of None \<Rightarrow> info_dt info | Some dt' \<Rightarrow> dt') components (data, None) =
           Inl (NotImplementedError m)"
    using nd
    by (auto simp: process_extracted_def convert_to_stream_def Let_def
        split: sum.splits if_splits option.splits prod.splits
        dest: stream_traces_error)
  then show ?thesis by (rule component_loop_NotImplementedD)
qed

text \<open>
  Claim C5, as stated: with \<open>reconvolve_stf\<close> and at least one component the call
  raises \<^verbatim>\<open>NotImplementedError\<close> if and only if the stored STF tag has an order other
  than 0 and 1. For the tag \<^verbatim>\<open>gauss_1\<close> (order 2) and a source without a sampling
  interval the call raises the \<^verbatim>\<open>ValueError\<close> of the missing source time function:
  that check comes first.
\<close>

theorem no_stf_raised_before_not_implemented:
  "snd (get_seismograms demo_X (demo_info\<lparr>info_stf := ''gauss_1''\<rparr>)
         (SourceObj ((demo_source 1)\<lparr>src_dt := None\<rparr>)) (ReceiverObj demo_receiver)
         [''Z''] ''displacement'' False True True None 5) =
     Inl (ValueError ''source has no source time function'')
   \<and> map_of stf_map (info_stf (demo_info\<lparr>info_stf := ''gauss_1''\<rparr>)) = Some 2"
  by (simp add: demo_defs gs_defs Let_def)

text \<open>
  Claim C5, amended: for a call with \<open>reconvolve_stf\<close>, without
  \<open>remove_source_shift\<close>, with at least one component, that passes the sanity checks
  and gets its data from the database, on a database whose STF tag is in the table: a
  source without sampling interval or without sliprate raises \<^verbatim>\<open>ValueError\<close> (no
  source time function); \<^verbatim>\<open>NotImplementedError\<close> is raised if and only if the source
  has both and the order of the tag is neither 0 nor 1; and a source that has both, on a
  tag of order 0 or 1, whose sampling interval differs from the nonzero \<open>dt\<close> of the
  database by more than \<open>1e-7\<close> relative (difference and quotient taken in floating
  point), raises \<^verbatim>\<open>ValueError\<close> (dt not compatible).
\<close>

theorem reconvolution_errors:
  assumes sanity:
      "get_seismograms_sanity_checks info source receiver components kind = Inr (src, rcv)"
    and impl: "get_seismograms_impl X src rcv components = Inr data"
    and stf: "known_stf (info_stf info)"
    and ne: "components \<noteq> []"
  shows "(src_dt src = None \<or> src_sliprate src = None \<longrightarrow>
            snd (get_seismograms X info source receiver components kind False True ros dt a) =
              Inl (ValueError ''source has no source time function''))
     \<and> ((\<exists>m. snd (get_seismograms X info source receiver components kind False True ros dt a) =
              Inl (NotImplementedError m)) \<longleftrightarrow>
          src_dt src \<noteq> None \<and> src_sliprate src \<noteq> None \<and>
          stf_order (info_stf info) \<noteq> 0 \<and> stf_order (info_stf info) \<noteq> 1)
     \<and> (\<forall>sdt. src_dt src = Some sdt \<and> src_sliprate src \<noteq> None \<and>
              (stf_order (info_stf info) = 0 \<or> stf_order (info_stf info) = 1) \<and>
              info_dt info \<noteq> 0 \<and>
              fl X (1 / 10 ^ 7)
                < \<bar>fl X (py_sub (fl X) sdt (info_dt info) / info_dt info)\<bar> \<longrightarrow>
            snd (get_seismograms X info source receiver components kind False True ros dt a) =
              Inl (ValueError ''dt of the source not compatible''))"
proof -
  let ?gs = "snd (get_seismograms X info source receiver components kind False True ros dt a)"
  let ?n = "kind_order kind - stf_order (info_stf info) + (if is_force src then 2 else 0)"
  obtain c cs where comps: "components = c # cs" using ne by (cases components) auto
  have order: "map_of stf_map (info_stf info) = Some (stf_order (info_stf info))"
    by (rule known_stf_order [OF stf])
  have n: "n_derivative info src kind = Inr ?n"
    by (rule n_derivative_value [OF sanity_checks_kind [OF sanity] stf])
  have gs: "?gs = process_extracted X info src rcv components kind False True ros dt a data"
    by (simp add: get_seismograms_def sanity impl)
  have first: "?gs = Inl e" if "reconvolve X info src c data = Inl e" for e
    unfolding gs using that
    by (simp add: process_extracted_def n comps process_component_def Let_def)
  have a: "?gs = Inl (ValueError ''source has no source time function'')"
    if "src_dt src = None \<or> src_sliprate src = None"
    by (rule first [OF reconvolve_no_stf [OF that]])
  have b1: "\<exists>m. ?gs = Inl (NotImplementedError m)"
    if "src_dt src \<noteq> None" "src_sliprate src \<noteq> None"
      "stf_order (info_stf info) \<noteq> 0" "stf_order (info_stf info) \<noteq> 1"
  proof -
    from that obtain sdt ss where "src_dt src = Some sdt" "src_sliprate src = Some ss" by auto
    from first [OF reconvolve_not_implemented [OF this order that(3,4)]]
    show ?thesis by blast
  qed
  have b2: "src_dt src \<noteq> None \<and> src_sliprate src \<noteq> None \<and>
          stf_order (info_stf info) \<noteq> 0 \<and> stf_order (info_stf info) \<noteq> 1"
    if "?gs = Inl (NotImplementedError m)" for m
    using process_extracted_NotImplementedD [OF that [unfolded gs]] order by auto
  have c: "?gs = Inl (ValueError ''dt of the source not compatible'')"
    if "src_dt src = Some sdt" "src_sliprate src \<noteq> None"
      "stf_order (info_stf info) = 0 \<or> stf_order (info_stf info) = 1"
      "info_dt info \<noteq> 0"
      "fl X (1 / 10 ^ 7) < \<bar>fl X (py_sub (fl X) sdt (info_dt info) / info_dt info)\<bar>" for sdt
  proof -
    from that(2) obtain ss where "src_sliprate src = Some ss" by auto
    from first [OF reconvolve_dt_mismatch [OF that(1) this order that(3,4,5)]]
    show ?thesis .
  qed
  show ?thesis using a b1 b2 c by blast
qed

theorem reconvolution_errors_witness:
  "get_seismograms_sanity_checks (demo_info\<lparr>info_stf := ''gauss_1''\<rparr>)
     (SourceObj (demo_source 1)) (ReceiverObj demo_receiver) [''Z''] ''displacement'' =
     Inr (demo_source 1, demo_receiver)
   \<and> known_stf (info_stf (demo_info\<lparr>info_stf := ''gauss_1''\<rparr>))
   \<and> stf_order (info_stf (demo_info\<lparr>info_stf := ''gauss_1''\<rparr>)) = 2
   \<and> (\<exists>m. snd (get_seismograms demo_X (demo_info\<lparr>info_stf := ''gauss_1''\<rparr>)
        (SourceObj (demo_source 1)) (ReceiverObj demo_receiver) [''Z''] ''displacement''
        False True True None 5) = Inl (NotImplementedError m))"
proof -
  let ?info = "demo_info\<lparr>info_stf := ''gauss_1''\<rparr>"
  have h1: "get_seismograms_sanity_checks ?info (SourceObj (demo_source 1))
     (ReceiverObj demo_receiver) [''Z''] ''displacement'' = Inr (demo_source 1, demo_receiver)"
    by (simp add: get_seismograms_sanity_checks_def demo_defs)
  have h2: "get_seismograms_impl demo_X (demo_source 1) demo_receiver [''Z''] =
      Inr \<lparr>series = [''Z'' \<mapsto> [1, 2]], mu = 64 * 10 ^ 9\<rparr>"
    by (simp add: demo_defs)
  have h3: "known_stf (info_stf ?info)" by (simp add: known_stf_def demo_defs)
  have h4: "[''Z''] \<noteq> []" by simp
  have o: "stf_order (info_stf ?info) = 2" by (simp add: stf_order_def demo_defs)
  have s: "src_dt (demo_source 1) \<noteq> None \<and> src_sliprate (demo_source 1) \<noteq> None"
    by (simp add: demo_defs)
  from reconvolution_errors [OF h1 h2 h3 h4, of True None 5] o s
  have "\<exists>m. snd (get_seismograms demo_X ?info
        (SourceObj (demo_source 1)) (ReceiverObj demo_receiver) [''Z''] ''displacement''
        False True True None 5) = Inl (NotImplementedError m)"
    by simp
  with h1 h3 o show ?thesis by simp
qed


section \<open>Summation over the sources of a finite source\<close>

text \<open>
  The product of an array with the correction factor: the one-element tuple is broadcast,
  so both forms of the factor scale every sample. Then the loop over the components for
  one source, which adds the scaled array of every listed component to the running sum,
  and the loop over the sources; the arrays of one component have one length for all
  sources, so that every addition is sample by sample.
\<close>

lemma ndarray_mul_corr_fac:
  "ndarray_mul d (corr_fac correct_mu data) =
     Inr (if correct_mu then map (\<lambda>x. x * (mu data / DEFAULT_MU)) d else d)"
proof (cases correct_mu)
  case True
  show ?thesis
  proof (cases "length d = 1")
    case l: True
    then obtain x where "d = [x]" by (cases d) auto
    with True show ?thesis by (simp add: ndarray_mul_def corr_fac_def broadcast2_def)
  next
    case False
    with True show ?thesis by (simp add: ndarray_mul_def corr_fac_def broadcast2_def)
  qed
next
  case False
  then show ?thesis by (simp add: ndarray_mul_def corr_fac_def)
qed

lemma length_scaled_contribution:
  "length (scaled_contribution correct_mu data d) = length d"
  by (simp add: scaled_contribution_def)

lemma sum_components_step:
  assumes d: "series data c = Some d" and ld: "length d = len c"
    and inv: "\<forall>c s. summed c = Some s \<longrightarrow> length s = len c"
  shows "sum_components (corr_fac correct_mu data) data (c # cs) summed =
         sum_components (corr_fac correct_mu data) data cs
           (add_contribution correct_mu data c summed)"
proof (cases "summed c")
  case None
  then show ?thesis
    using d by (simp add: ndarray_mul_corr_fac add_contribution_def scaled_contribution_def)
next
  case (Some s)
  with inv ld have "length s = length d" by simp
  then show ?thesis
    using d Some
    by (simp add: ndarray_mul_corr_fac add_contribution_def scaled_contribution_def
        ndarray_iadd_def)
qed

lemma add_contribution_length:
  assumes d: "series data c = Some d" and ld: "length d = len c"
    and inv: "\<forall>c s. summed c = Some s \<longrightarrow> length s = len c"
  shows "\<forall>c' s. add_contribution correct_mu data c summed c' = Some s \<longrightarrow> length s = len c'"
  using assms
  by (auto simp: add_contribution_def length_scaled_contribution split: option.splits)

lemma fold_add_contribution_length:
  assumes "\<forall>c\<in>set cmps. \<exists>d. series data c = Some d \<and> length d = len c"
    and "\<forall>c s. summed c = Some s \<longrightarrow> length s = len c"
  shows "\<forall>c s. fold (add_contribution correct_mu data) cmps summed c = Some s \<longrightarrow>
           length s = len c"
  using assms
proof (induction cmps arbitrary: summed)
  case Nil
  then show ?case by simp
next
  case (Cons c cs)
  from Cons.prems(1) obtain d where d: "series data c = Some d" and ld: "length d = len c"
    by auto
  have inv: "\<forall>c' s. add_contribution correct_mu data c summed c' = Some s \<longrightarrow>
               length s = len c'"
    by (rule add_contribution_length [OF d ld Cons.prems(2)])
  have rest: "\<forall>c\<in>set cs. \<exists>d. series data c = Some d \<and> length d = len c"
    using Cons.prems(1) by simp
  show ?case using Cons.IH [OF rest inv] by simp
qed

lemma sum_components_fold:
  assumes "\<forall>c\<in>set cmps. \<exists>d. series data c = Some d \<and> length d = len c"
    and "\<forall>c s. summed c = Some s \<longrightarrow> length s = len c"
  shows "sum_components (corr_fac correct_mu data) data cmps summed =
         Inr (fold (add_contribution correct_mu data) cmps summed)"
  using assms
proof (induction cmps arbitrary: summed)
  case Nil
  show ?case by simp
next
  case (Cons c cs)
  from Cons.prems(1) obtain d where d: "series data c = Some d" and ld: "length d = len c"
    by auto
  have inv: "\<forall>c' s. add_contribution correct_mu data c summed c' = Some s \<longrightarrow>
               length s = len c'"
    by (rule add_contribution_length [OF d ld Cons.prems(2)])
  have rest: "\<forall>c\<in>set cs. \<exists>d. series data c = Some d \<and> length d = len c"
    using Cons.prems(1) by simp
  show ?case
    unfolding sum_components_step [OF d ld Cons.prems(2)] Cons.IH [OF rest inv] by simp
qed

lemma add_contribution_keeps:
  "summed c \<noteq> None \<Longrightarrow> add_contribution correct_mu data c' summed c \<noteq> None"
  by (simp add: add_contribution_def split: option.splits)

lemma fold_add_contribution_keeps:
  "summed c \<noteq> None \<Longrightarrow> fold (add_contribution correct_mu data) cmps summed c \<noteq> None"
  by (induction cmps arbitrary: summed) (simp_all add: add_contribution_keeps del: not_None_eq)

lemma fold_add_contribution_present:
  "c \<in> set cmps \<Longrightarrow> \<forall>c\<in>set cmps. series data c \<noteq> None \<Longrightarrow>
   fold (add_contribution correct_mu data) cmps summed c \<noteq> None"
proof (induction cmps arbitrary: summed)
  case Nil
  then show ?case by simp
next
  case (Cons x xs)
  show ?case
  proof (cases "c = x")
    case True
    with Cons.prems(2) have "add_contribution correct_mu data x summed c \<noteq> None"
      by (auto simp: add_contribution_def)
    then show ?thesis by (simp add: fold_add_contribution_keeps)
  next
    case False
    with Cons.prems have "c \<in> set xs" "\<forall>c\<in>set xs. series data c \<noteq> None" by auto
    then show ?thesis using Cons.IH by simp
  qed
qed

lemma running_sum_fold_keeps:
  "summed c \<noteq> None \<Longrightarrow>
   fold (\<lambda>data. fold (add_contribution correct_mu data) cmps) datas summed c \<noteq> None"
  by (induction datas arbitrary: summed)
    (simp_all add: fold_add_contribution_keeps del: not_None_eq)

lemma running_sum_present:
  assumes "datas \<noteq> []" and "c \<in> set cmps"
    and "\<forall>data\<in>set datas. \<forall>c\<in>set cmps. series data c \<noteq> None"
  shows "running_sum correct_mu cmps datas c \<noteq> None"
proof -
  from assms(1) obtain x xs where datas: "datas = x # xs" by (cases datas) auto
  have "fold (add_contribution correct_mu x) cmps Map.empty c \<noteq> None"
    using assms(2,3) datas by (intro fold_add_contribution_present) auto
  then show ?thesis
    by (simp add: running_sum_def datas running_sum_fold_keeps)
qed

lemma source_loop_sum:
  assumes "list_all2 (\<lambda>s data.
             snd (get_seismograms X info s receiver components ''displacement''
                    False True False None 5) = Inr (DataOut data)) sources datas"
    and "\<forall>data\<in>set datas. \<forall>c\<in>set components. \<exists>d. series data c = Some d \<and> length d = len c"
    and "\<forall>c s. summed c = Some s \<longrightarrow> length s = len c"
    and "\<forall>callback. progress_callback = Some callback \<longrightarrow>
           (\<forall>j. i < j \<and> j \<le> i + length sources \<longrightarrow> \<not> callback j count)"
  shows "source_loop X info receiver components correct_mu progress_callback count i sources
           (summed, prev) =
         Inr (Some (fold (\<lambda>data. fold (add_contribution correct_mu data) components) datas
                      summed,
                    if datas = [] then prev else Some (last datas)))"
  using assms
proof (induction sources datas arbitrary: summed prev i rule: list_all2_induct)
  case Nil
  show ?case by simp
next
  case (Cons s ss data ds)
  have pres: "\<forall>c\<in>set components. \<exists>d. series data c = Some d \<and> length d = len c"
    using Cons.prems(1) by simp
  have sum: "sum_components (corr_fac correct_mu data) data components summed =
      Inr (fold (add_contribution correct_mu data) components summed)"
    by (rule sum_components_fold [OF pres Cons.prems(2)])
  have inv: "\<forall>c s. fold (add_contribution correct_mu data) components summed c = Some s \<longrightarrow>
               length s = len c"
    by (rule fold_add_contribution_length [OF pres Cons.prems(2)])
  have go: "\<not> (case progress_callback of None \<Rightarrow> False
              | Some callback \<Rightarrow> callback (i + 1) count)"
    using Cons.prems(3) by (auto split: option.splits)
  have rest: "\<forall>data\<in>set ds. \<forall>c\<in>set components. \<exists>d. series data c = Some d \<and> length d = len c"
    using Cons.prems(1) by simp
  have cb: "\<forall>callback. progress_callback = Some callback \<longrightarrow>
           (\<forall>j. i + 1 < j \<and> j \<le> i + 1 + length ss \<longrightarrow> \<not> callback j count)"
    using Cons.prems(3) by auto
  have "source_loop X info receiver components correct_mu progress_callback count i (s # ss)
           (summed, prev) =
        source_loop X info receiver components correct_mu progress_callback count (i + 1) ss
           (fold (add_contribution correct_mu data) components summed, Some data)"
    using go by (simp add: Cons.hyps(1) sum)
  also have "\<dots> = Inr (Some (fold (\<lambda>data. fold (add_contribution correct_mu data) components)
                      ds (fold (add_contribution correct_mu data) components summed),
                    if ds = [] then Some data else Some (last ds)))"
    by (rule Cons.IH [OF rest inv cb])
  finally show ?case by simp
qed

lemma finite_source_sum:
  assumes recip: "is_reciprocal info"
    and runs: "list_all2 (\<lambda>s data.
             snd (get_seismograms X info s (ReceiverObj r) components ''displacement''
                    False True False None 5) = Inr (DataOut data)) sources datas"
    and lens: "\<forall>data\<in>set datas. \<forall>c\<in>set components.
                 \<exists>d. series data c = Some d \<and> length d = len c"
    and ne: "sources \<noteq> []"
    and cb: "\<forall>callback. progress_callback = Some callback \<longrightarrow>
               (\<forall>j. 0 < j \<and> j \<le> length sources \<longrightarrow> \<not> callback j (length sources))"
  shows "get_seismograms_finite_source X info sources (ReceiverObj r) components kind None a
           correct_mu progress_callback =
     Inr (Some (map (\<lambda>c. \<lparr>tr_data = the (running_sum correct_mu components datas c),
                           tr_delta = info_dt info, tr_starttime = None,
                           tr_station = station r, tr_network = network r,
                           tr_channel = get_band_code X (info_dt info) @ ''X'' @ c,
                           tr_instaseis_mu = None\<rparr>) components))"
proof -
  have inv0: "\<forall>c s. (Map.empty :: string \<rightharpoonup> real list) c = Some s \<longrightarrow> length s = len c"
    by simp
  have cb0: "\<forall>callback. progress_callback = Some callback \<longrightarrow>
               (\<forall>j. 0 < j \<and> j \<le> 0 + length sources \<longrightarrow> \<not> callback j (length sources))"
    using cb by simp
  have loop: "source_loop X info (ReceiverObj r) components correct_mu progress_callback
           (length sources) 0 sources (Map.empty, None) =
         Inr (Some (running_sum correct_mu components datas,
                    if datas = [] then None else Some (last datas)))"
    unfolding running_sum_def by (rule source_loop_sum [OF runs lens inv0 cb0])
  have dne: "datas \<noteq> []" using runs ne by (auto simp: list_all2_Nil2)
  have pres: "\<forall>c\<in>set components. running_sum correct_mu components datas c \<noteq> None"
  proof
    fix c assume c: "c \<in> set components"
    have "\<forall>data\<in>set datas. \<forall>c\<in>set components. series data c \<noteq> None"
      using lens by fastforce
    then show "running_sum correct_mu components datas c \<noteq> None"
      by (rule running_sum_present [OF dne c])
  qed
  show ?thesis
    by (simp add: get_seismograms_finite_source_def recip loop Let_def
        stream_traces_present [OF pres])
qed

text \<open>
  Claim C2: with \<open>correct_mu\<close> the array that \<^verbatim>\<open>get_seismograms\<close> returns for a
  point source and a component is scaled, sample by sample, by the shear modulus reported
  for that source divided by the reference constant \<open>32e9\<close> before it is added to the
  running sum of the component (or becomes the sum, for the first source); without
  \<open>correct_mu\<close> it is added as it is. The method is called without \<open>dt\<close> on a
  reciprocal database with a receiver object and at least one source; every call of
  \<^verbatim>\<open>get_seismograms\<close> returns its arrays, those of one component have one length
  for all sources, and the callback, if any, never cancels. The traces returned are then
  the running sums over all sources, in the order of the sources and, for one source, of
  the tuple of components.
\<close>

theorem mu_correction_scaling:
  assumes "is_reciprocal info"
    and "list_all2 (\<lambda>s data.
             snd (get_seismograms X info s (ReceiverObj r) components ''displacement''
                    False True False None 5) = Inr (DataOut data)) sources datas"
    and "\<forall>data\<in>set datas. \<forall>c\<in>set components. \<exists>d. series data c = Some d \<and> length d = len c"
    and "sources \<noteq> []"
    and "\<forall>callback. progress_callback = Some callback \<longrightarrow>
           (\<forall>j. 0 < j \<and> j \<le> length sources \<longrightarrow> \<not> callback j (length sources))"
  shows "DEFAULT_MU = 32 * 10 ^ 9
     \<and> get_seismograms_finite_source X info sources (ReceiverObj r) components kind None a
         correct_mu progress_callback =
       Inr (Some (map (\<lambda>c.
         \<lparr>tr_data =
            the (fold (\<lambda>data. fold (\<lambda>c summed.
                   case series data c of None \<Rightarrow> summed
                   | Some d \<Rightarrow>
                       let contribution =
                             (if correct_mu then map (\<lambda>x. x * (mu data / DEFAULT_MU)) d
                              else d)
                       in summed(c \<mapsto>
                            (case summed c of None \<Rightarrow> contribution
                             | Some s \<Rightarrow> map2 (\<lambda>x y. x + y) s contribution)))
                  components) datas Map.empty c),
          tr_delta = info_dt info, tr_starttime = None,
          tr_station = station r, tr_network = network r,
          tr_channel = get_band_code X (info_dt info) @ ''X'' @ c,
          tr_instaseis_mu = None\<rparr>) components))"
proof -
  have R: "running_sum correct_mu components datas =
      fold (\<lambda>data. fold (\<lambda>c summed.
                   case series data c of None \<Rightarrow> summed
                   | Some d \<Rightarrow>
                       let contribution =
                             (if correct_mu then map (\<lambda>x. x * (mu data / DEFAULT_MU)) d
                              else d)
                       in summed(c \<mapsto>
                            (case summed c of None \<Rightarrow> contribution
                             | Some s \<Rightarrow> map2 (\<lambda>x y. x + y) s contribution)))
                  components) datas Map.empty"
  proof -
    have "add_contribution correct_mu = (\<lambda>data c summed.
                   case series data c of None \<Rightarrow> summed
                   | Some d \<Rightarrow>
                       let contribution =
                             (if correct_mu then map (\<lambda>x. x * (mu data / DEFAULT_MU)) d
                              else d)
                       in summed(c \<mapsto>
                            (case summed c of None \<Rightarrow> contribution
                             | Some s \<Rightarrow> map2 (\<lambda>x y. x + y) s contribution)))"
      by (intro ext)
        (simp add: add_contribution_def scaled_contribution_def Let_def split: option.splits)
    then show ?thesis by (simp add: running_sum_def)
  qed
  show ?thesis
    unfolding finite_source_sum [OF assms] R by (simp add: DEFAULT_MU_def)
qed

theorem mu_correction_scaling_witness:
  "is_reciprocal demo_info
   \<and> list_all2 (\<lambda>s data.
        snd (get_seismograms demo_X demo_info s (ReceiverObj demo_receiver) [''Z'']
               ''displacement'' False True False None 5) = Inr (DataOut data))
        [SourceObj (demo_source 1), SourceObj (demo_source 10)]
        [\<lparr>series = [''Z'' \<mapsto> [0, 3 / 2]], mu = 64 * 10 ^ 9\<rparr>,
         \<lparr>series = [''Z'' \<mapsto> [0, 15]], mu = 64 * 10 ^ 9\<rparr>]
   \<and> get_seismograms_finite_source demo_X demo_info
        [SourceObj (demo_source 1), SourceObj (demo_source 10)] (ReceiverObj demo_receiver)
        [''Z''] ''displacement'' None 5 True None =
      Inr (Some [\<lparr>tr_data = [0, 33], tr_delta = 1, tr_starttime = None,
                   tr_station = ''STA'', tr_network = ''NW'', tr_channel = ''LXZ'',
                   tr_instaseis_mu = None\<rparr>])"
proof -
  let ?datas = "[\<lparr>series = [''Z'' \<mapsto> [0, 3 / 2 :: real]], mu = 64 * 10 ^ 9\<rparr>,
                 \<lparr>series = [''Z'' \<mapsto> [0, 15]], mu = 64 * 10 ^ 9\<rparr>]"
  let ?sources = "[SourceObj (demo_source 1), SourceObj (demo_source 10)]"
  have h1: "is_reciprocal demo_info" by (simp add: demo_defs)
  have h2: "list_all2 (\<lambda>s data.
        snd (get_seismograms demo_X demo_info s (ReceiverObj demo_receiver) [''Z'']
               ''displacement'' False True False None 5) = Inr (DataOut data))
        ?sources ?datas"
    by (simp add: demo_defs gs_defs Let_def)
  have h3: "\<forall>data\<in>set ?datas. \<forall>c\<in>set [''Z''].
              \<exists>d. series data c = Some d \<and> length d = (\<lambda>c. 2) c"
    by simp
  have h4: "?sources \<noteq> []" by simp
  have h5: "\<forall>callback. (None :: (nat \<Rightarrow> nat \<Rightarrow> bool) option) = Some callback \<longrightarrow>
           (\<forall>j. 0 < j \<and> j \<le> length ?sources \<longrightarrow> \<not> callback j (length ?sources))"
    by simp
  have "get_seismograms_finite_source demo_X demo_info ?sources (ReceiverObj demo_receiver)
        [''Z''] ''displacement'' None 5 True None =
      Inr (Some [\<lparr>tr_data = [0, 33], tr_delta = 1, tr_starttime = None,
                   tr_station = ''STA'', tr_network = ''NW'', tr_channel = ''LXZ'',
                   tr_instaseis_mu = None\<rparr>])"
    using mu_correction_scaling [OF h1 h2 h3 h4 h5, of "''displacement''" 5 True]
    by (simp add: demo_defs DEFAULT_MU_def Let_def)
  with h1 h2 show ?thesis by simp
qed

text \<open>
  The final resampling pass reads the arrays of \<open>data\<close>, the result of the last source,
  and overwrites the entries of \<open>data_summed\<close>: its result does not depend on the sums.
\<close>

lemma final_resample_result:
  assumes "final_resample X info dt a (Some dat) cmps data_summed = Inr r"
  shows "r c =
     (if c \<in> set cmps
      then map_option (\<lambda>d.
             let starttime =
                   py_round (fl X)
                     (py_sub (fl X) (info_src_shift info)
                        (py_mul (fl X)
                           (of_int (py_int (py_round (fl X)
                                              (fl X (info_src_shift info / dt)) 5))) dt)) 5;
                 duration =
                   py_sub (fl X) (py_mul (fl X) (of_int (int (length d) - 1)) (info_dt info))
                     starttime;
                 new_npts = py_int (py_round (fl X) (fl X (duration / dt)) 5) + 1
             in lanczos_interpolation X d 0 (info_dt info) starttime dt new_npts a
                  ''blackman'') (series dat c)
      else data_summed c)"
  using assms
proof (induction cmps arbitrary: data_summed)
  case Nil
  then show ?case by simp
next
  case (Cons x xs)
  from Cons.prems obtain d where d: "series dat x = Some d" and nz: "dt \<noteq> 0"
    by (auto simp: py_div_def Let_def split: if_splits option.splits)
  let ?v = "let starttime =
                   py_round (fl X)
                     (py_sub (fl X) (info_src_shift info)
                        (py_mul (fl X)
                           (of_int (py_int (py_round (fl X)
                                              (fl X (info_src_shift info / dt)) 5))) dt)) 5;
                 duration =
                   py_sub (fl X) (py_mul (fl X) (of_int (int (length d) - 1)) (info_dt info))
                     starttime;
                 new_npts = py_int (py_round (fl X) (fl X (duration / dt)) 5) + 1
             in lanczos_interpolation X d 0 (info_dt info) starttime dt new_npts a
                  ''blackman''"
  from Cons.prems d nz
  have rest: "final_resample X info dt a (Some dat) xs (data_summed(x \<mapsto> ?v)) = Inr r"
    by (simp add: py_div_def Let_def)
  show ?case
    using Cons.IH [OF rest] d by (auto simp: Let_def)
qed

text \<open>
  Claim C1: with a requested \<open>dt\<close> the final resampling pass is applied to the
  componentwise sum over all sources. For two sources whose contributions are \<open>[0, 1.5]\<close>
  and \<open>[0, 15]\<close>, and \<open>dt\<close> equal to the sampling interval of the database (the new
  grid is the old one, so resampling returns its input), the result is \<open>[0, 15]\<close>, the
  contribution of the last source; without \<open>dt\<close> it is the sum \<open>[0, 16.5]\<close>, which
  resampling would leave as it is.
\<close>

theorem finite_source_resamples_last_source:
  "get_seismograms_finite_source demo_X demo_info
     [SourceObj (demo_source 1), SourceObj (demo_source 10)] (ReceiverObj demo_receiver)
     [''Z''] ''displacement'' (Some 1) 5 False None =
     Inr (Some [\<lparr>tr_data = [0, 15], tr_delta = 1, tr_starttime = None,
                  tr_station = ''STA'', tr_network = ''NW'', tr_channel = ''LXZ'',
                  tr_instaseis_mu = None\<rparr>])
   \<and> get_seismograms_finite_source demo_X demo_info
     [SourceObj (demo_source 1), SourceObj (demo_source 10)] (ReceiverObj demo_receiver)
     [''Z''] ''displacement'' None 5 False None =
     Inr (Some [\<lparr>tr_data = [0, 33 / 2], tr_delta = 1, tr_starttime = None,
                  tr_station = ''STA'', tr_network = ''NW'', tr_channel = ''LXZ'',
                  tr_instaseis_mu = None\<rparr>])
   \<and> lanczos_interpolation demo_X [0, 33 / 2] 0 1 0 1 2 5 ''blackman'' = [0, 33 / 2]"
  by (simp add: fs_defs demo_defs gs_defs Let_def)

text \<open>
  Claim C8: for one source, no \<open>correct_mu\<close> and no \<open>dt\<close> the finite-source method
  returns the arrays of \<^verbatim>\<open>get_seismograms\<close> called with \<open>reconvolve_stf\<close> and without
  \<open>remove_source_shift\<close>. The method does not pass its \<open>kind\<close> on: asked for velocity
  it returns the displacement \<open>[0, 1.5]\<close>, where the direct call for velocity returns
  \<open>[1, 2]\<close>.
\<close>

theorem finite_source_ignores_kind:
  "get_seismograms_finite_source demo_X demo_info [SourceObj (demo_source 1)]
     (ReceiverObj demo_receiver) [''Z''] ''velocity'' None 5 False None =
     Inr (Some [\<lparr>tr_data = [0, 3 / 2], tr_delta = 1, tr_starttime = None,
                  tr_station = ''STA'', tr_network = ''NW'', tr_channel = ''LXZ'',
                  tr_instaseis_mu = None\<rparr>])
   \<and> snd (get_seismograms demo_X demo_info (SourceObj (demo_source 1))
        (ReceiverObj demo_receiver) [''Z''] ''velocity'' False True False None 5) =
     Inr (DataOut \<lparr>series = [''Z'' \<mapsto> [1, 2]], mu = 64 * 10 ^ 9\<rparr>)"
  by (simp add: fs_defs demo_defs gs_defs Let_def)

text \<open>
  For every \<open>kind\<close> the result for one source and components listed once is the result
  of the direct call for displacement.
\<close>

lemma sum_components_result:
  assumes "distinct components"
    and "\<forall>c\<in>set components. \<exists>d. series data c = Some d \<and>
           (\<forall>s. data_summed c = Some s \<longrightarrow> length s = length d)"
  shows "sum_components (corr_fac correct_mu data) data components data_summed =
     Inr (\<lambda>c. if c \<in> set components
               then (case series data c of None \<Rightarrow> None
                     | Some d \<Rightarrow>
                         let contribution =
                               (if correct_mu then map (\<lambda>x. x * (mu data / DEFAULT_MU)) d
                                else d)
                         in Some (case data_summed c of None \<Rightarrow> contribution
                                  | Some s \<Rightarrow> map2 (\<lambda>x y. x + y) s contribution))
               else data_summed c)"
  using assms
proof (induction components arbitrary: data_summed)
  case Nil
  show ?case by simp
next
  case (Cons c cs)
  from Cons.prems obtain d where d: "series data c = Some d"
    and len: "\<forall>s. data_summed c = Some s \<longrightarrow> length s = length d" by auto
  let ?contribution = "if correct_mu then map (\<lambda>x. x * (mu data / DEFAULT_MU)) d else d"
  let ?v = "case data_summed c of None \<Rightarrow> ?contribution
            | Some s \<Rightarrow> map2 (\<lambda>x y. x + y) s ?contribution"
  have lc: "length ?contribution = length d" by simp
  have step: "sum_components (corr_fac correct_mu data) data (c # cs) data_summed =
      sum_components (corr_fac correct_mu data) data cs (data_summed(c \<mapsto> ?v))"
    using d len lc
    by (auto simp: ndarray_mul_corr_fac ndarray_iadd_def split: option.splits)
  have dist: "distinct cs" and notin: "c \<notin> set cs" using Cons.prems by auto
  have pres: "\<forall>c'\<in>set cs. \<exists>d. series data c' = Some d \<and>
           (\<forall>s. (data_summed(c \<mapsto> ?v)) c' = Some s \<longrightarrow> length s = length d)"
    using Cons.prems notin by auto
  show ?case
    unfolding step Cons.IH [OF dist pres]
    using notin d by (auto simp: Let_def fun_eq_iff split: option.splits)
qed

lemma finite_single_source:
  assumes recip: "is_reciprocal info"
    and gs: "snd (get_seismograms X info source (ReceiverObj r) components ''displacement''
                    False True False None 5) = Inr (DataOut data)"
    and dist: "distinct components"
    and pres: "\<forall>c\<in>set components. series data c \<noteq> None"
    and cb: "case progress_callback of None \<Rightarrow> True | Some callback \<Rightarrow> \<not> callback 1 1"
  shows "get_seismograms_finite_source X info [source] (ReceiverObj r) components kind None a
           False progress_callback =
     Inr (Some (map (\<lambda>c. \<lparr>tr_data = the (series data c), tr_delta = info_dt info,
                           tr_starttime = None, tr_station = station r,
                           tr_network = network r,
                           tr_channel = get_band_code X (info_dt info) @ ''X'' @ c,
                           tr_instaseis_mu = None\<rparr>) components))"
proof -
  let ?summed = "\<lambda>c. if c \<in> set components then series data c else None"
  have h: "\<forall>c\<in>set components. \<exists>d. series data c = Some d \<and>
           (\<forall>s. Map.empty c = Some s \<longrightarrow> length s = length d)"
    using pres by auto
  have "sum_components (corr_fac False data) data components Map.empty =
     Inr (\<lambda>c. if c \<in> set components
               then (case series data c of None \<Rightarrow> None
                     | Some d \<Rightarrow>
                         let contribution =
                               (if False then map (\<lambda>x. x * (mu data / DEFAULT_MU)) d
                                else d)
                         in Some (case Map.empty c of None \<Rightarrow> contribution
                                  | Some s \<Rightarrow> map2 (\<lambda>x y. x + y) s contribution))
               else Map.empty c)"
    by (rule sum_components_result [OF dist h])
  also have "(\<lambda>c. if c \<in> set components
               then (case series data c of None \<Rightarrow> None
                     | Some d \<Rightarrow>
                         let contribution =
                               (if False then map (\<lambda>x. x * (mu data / DEFAULT_MU)) d
                                else d)
                         in Some (case Map.empty c of None \<Rightarrow> contribution
                                  | Some s \<Rightarrow> map2 (\<lambda>x y. x + y) s contribution))
               else Map.empty c) = ?summed"
    by (auto simp: fun_eq_iff split: option.splits)
  finally have sum: "sum_components (corr_fac False data) data components Map.empty =
      Inr ?summed" .
  have pres': "\<forall>c\<in>set components. ?summed c \<noteq> None" using pres by simp
  have traces: "stream_traces ?summed mk components =
      Inr (map (\<lambda>c. mk c (the (series data c))) components)" for mk
    by (subst stream_traces_present [OF pres']) simp
  show ?thesis
    using cb
    by (cases progress_callback)
      (simp_all add: get_seismograms_finite_source_def recip gs sum traces Let_def)
qed

end
